theory Spec2Isabelle
  imports Complex_Main "HOL-Library.Char_ord" "HOL-Library.List_Lexorder"
begin

section \<open>Stock coverage analysis (app.py, app3.py)\<close>

text \<open>
  Both scripts run the same pipeline on the uploaded sheet: a per-branch summary
  (\<open>cobertura\<close>), the coverage ranges (\<open>faixa\<close>), the pending-order value per branch and
  range (\<open>resumo_valores\<close>), its percentages (\<open>resumo_percentuais\<close>) and the workbook
  writer (\<open>escrever_tabela_com_estilo\<close>). The definitions below follow app.py line by line;
  app3.py has the same text for every function modelled here.

  Numbers. The numeric columns of the input are modelled as \<open>real\<close>: finite values, with
  the arithmetic of the reals in place of binary floating point. What pandas and numpy
  produce beyond finite numbers is kept: a float result is an \<open>fnum\<close>, which is finite,
  \<open>+inf\<close>, \<open>-inf\<close> or \<open>NaN\<close>, and an exception is a value of \<open>py_error\<close>.
\<close>

subsection \<open>Values\<close>

datatype fnum = Fin real | PInf | NInf | NaN

datatype py_error = ZeroDivisionError

record stock_row =
  filial :: string
  cobertura_dias :: real
  valor_estoque :: real
  mercadoria :: string
  saldo_pedido :: real

type_synonym dataframe = "stock_row list"

subsection \<open>Coverage ranges: \<open>pd.cut\<close> (app.py lines 60 to 65)\<close>

text \<open>
  \<^verbatim>\<open>bins=[-np.inf, 0, 15, 30, 45, 60, np.inf]\<close>, \<^verbatim>\<open>right=False\<close>. With \<open>right=False\<close>
  pandas looks the value up with \<open>bins.searchsorted(x, side='right')\<close>, the number of
  leading edges that are at most \<open>x\<close>; position 0 and position \<open>len(bins)\<close> mean no
  interval (the category is NaN), any other position \<open>i\<close> takes \<open>labels[i - 1]\<close>.
\<close>

datatype edge = NegInf | Edge real | PosInf

fun edge_le :: "edge \<Rightarrow> real \<Rightarrow> bool" where
  "edge_le NegInf x = True"
| "edge_le (Edge b) x = (b \<le> x)"
| "edge_le PosInf x = False"

definition bins :: "edge list" where
  "bins = [NegInf, Edge 0, Edge 15, Edge 30, Edge 45, Edge 60, PosInf]"

definition labels :: "string list" where
  "labels = [''<=0 dias'', ''1-15 dias'', ''16-30 dias'', ''31-45 dias'', ''46-60 dias'',
             ''Mais de 60 dias'']"

definition searchsorted_right :: "edge list \<Rightarrow> real \<Rightarrow> nat" where
  "searchsorted_right bs x = length (takeWhile (\<lambda>b. edge_le b x) bs)"

definition pd_cut :: "real \<Rightarrow> string option" where
  "pd_cut x =
     (let ids = searchsorted_right bins x
      in if ids = 0 \<or> ids = length bins then None else Some (labels ! (ids - 1)))"

text \<open>The column \<open>df['faixa']\<close> of a row.\<close>

definition faixa :: "stock_row \<Rightarrow> string option" where
  "faixa r = pd_cut (cobertura_dias r)"

subsection \<open>Grouping by branch (app.py lines 33 to 57)\<close>

text \<open>
  \<open>df.groupby("filial")\<close> visits each distinct branch once, in ascending order of the key
  (\<open>sort=True\<close> is the default), with the rows of that branch in their input order.
\<close>

definition groupby_keys :: "dataframe \<Rightarrow> string list" where
  "groupby_keys df = sort (remdups (map filial df))"

definition grupo_de :: "dataframe \<Rightarrow> string \<Rightarrow> dataframe" where
  "grupo_de df k = filter (\<lambda>r. filial r = k) df"

definition saldo_totais :: "dataframe \<Rightarrow> (string \<times> real) list" where
  "saldo_totais df = map (\<lambda>k. (k, sum_list (map saldo_pedido (grupo_de df k)))) (groupby_keys df)"

text \<open>
  \<open>np.average(a, weights=w)\<close> divides the weighted sum by the sum of the weights and
  raises \<open>ZeroDivisionError\<close> when that sum is zero.
\<close>

definition np_average :: "real list \<Rightarrow> real list \<Rightarrow> py_error + real" where
  "np_average a w =
     (let scl = sum_list w
      in if scl = 0 then Inl ZeroDivisionError
         else Inr (sum_list (map (\<lambda>(x, y). x * y) (zip a w)) / scl))"

definition calcular_media_ponderada :: "dataframe \<Rightarrow> py_error + real" where
  "calcular_media_ponderada grupo =
     (let grupo = filter (\<lambda>r. valor_estoque r > 0) grupo
      in if grupo = [] then Inr 0
         else np_average (map cobertura_dias grupo) (map valor_estoque grupo))"

text \<open>\<open>Series.mean()\<close>; the mean of no value is NaN.\<close>

definition calcular_media_simples :: "dataframe \<Rightarrow> fnum" where
  "calcular_media_simples grupo =
     (if grupo = [] then NaN
      else Fin (sum_list (map cobertura_dias grupo) / real (length grupo)))"

text \<open>
  \<open>.round(2)\<close> scales by 100, rounds to the nearest integer with ties to the even one, and
  scales back; NaN and the infinities stay as they are.
\<close>

definition rint :: "real \<Rightarrow> int" where
  "rint x =
     (let f = \<lfloor>x\<rfloor>; d = x - of_int f
      in if d < 1 / 2 then f else if 1 / 2 < d then f + 1 else if even f then f else f + 1)"

definition round2 :: "real \<Rightarrow> real" where
  "round2 x = of_int (rint (x * 100)) / 100"

fun fnum_round2 :: "fnum \<Rightarrow> fnum" where
  "fnum_round2 (Fin x) = Fin (round2 x)"
| "fnum_round2 v = v"

text \<open>
  \<open>groupby("filial").apply(...)\<close>: one row per group, in the order of the keys, holding
  the two averages; an exception in any group ends the run.
\<close>

fun apply_grupos :: "dataframe \<Rightarrow> string list \<Rightarrow> py_error + (string \<times> real \<times> fnum) list" where
  "apply_grupos df [] = Inr []"
| "apply_grupos df (k # ks) =
     (case calcular_media_ponderada (grupo_de df k) of
        Inl e \<Rightarrow> Inl e
      | Inr p \<Rightarrow>
          (case apply_grupos df ks of
             Inl e \<Rightarrow> Inl e
           | Inr rows \<Rightarrow> Inr ((k, p, calcular_media_simples (grupo_de df k)) # rows)))"

text \<open>\<open>cobertura["Filial"].map(saldo_totais)\<close>: the total of the branch, NaN for a key not found.\<close>

definition map_saldo :: "(string \<times> real) list \<Rightarrow> string \<Rightarrow> fnum" where
  "map_saldo totais k = (case map_of totais k of None \<Rightarrow> NaN | Some s \<Rightarrow> Fin s)"

record cobertura_row =
  cob_filial :: string
  media_ponderada :: fnum
  media_simples :: fnum
  saldo_pedido_total :: fnum

text \<open>The table \<open>cobertura\<close>: both averages rounded, the index as a column, the totals added.\<close>

definition cobertura :: "dataframe \<Rightarrow> py_error + cobertura_row list" where
  "cobertura df =
     (case apply_grupos df (groupby_keys df) of
        Inl e \<Rightarrow> Inl e
      | Inr rows \<Rightarrow>
          Inr (map (\<lambda>(k, p, s).
                 \<lparr>cob_filial = k,
                  media_ponderada = fnum_round2 (Fin p),
                  media_simples = fnum_round2 s,
                  saldo_pedido_total = map_saldo (saldo_totais df) k\<rparr>) rows))"

subsection \<open>Value per branch and range (app.py lines 67 to 69)\<close>

text \<open>
  \<open>df.groupby(['filial', 'faixa'])['saldo_pedido'].sum()\<close> is a series indexed by the
  pairs (branch, range); a row whose range is NaN belongs to no group. The key
  \<open>faixa\<close> is categorical, and the pairs of the result depend on the \<open>observed\<close> option
  of \<open>groupby\<close>, which the scripts leave at the default of the installed pandas:
  \<open>False\<close> (before pandas 3) gives every branch paired with every one of the six
  categories, an empty group summing to 0; \<open>True\<close> gives only the pairs that occur.
  The default is a parameter of the model.
\<close>

definition soma_grupo :: "dataframe \<Rightarrow> string \<Rightarrow> string \<Rightarrow> real" where
  "soma_grupo df k l =
     sum_list (map saldo_pedido (filter (\<lambda>r. filial r = k \<and> faixa r = Some l) df))"

definition pares_filial_faixa :: "bool \<Rightarrow> dataframe \<Rightarrow> (string \<times> string) list" where
  "pares_filial_faixa observed df =
     (if observed
      then filter (\<lambda>(k, l). \<exists>r \<in> set df. filial r = k \<and> faixa r = Some l)
             (List.product (groupby_keys df) labels)
      else List.product (groupby_keys df) labels)"

definition groupby_filial_faixa :: "bool \<Rightarrow> dataframe \<Rightarrow> ((string \<times> string) \<times> real) list" where
  "groupby_filial_faixa observed df =
     map (\<lambda>(k, l). ((k, l), soma_grupo df k l)) (pares_filial_faixa observed df)"

text \<open>
  \<open>.unstack()\<close> turns the inner level into columns: one row per branch of the series, one
  column per range of the series (in the order of the categories), NaN where the series
  has no such pair. \<open>.fillna(0)\<close> replaces the NaN by 0.
\<close>

definition fillna0 :: "real option \<Rightarrow> real" where
  "fillna0 v = (case v of None \<Rightarrow> 0 | Some x \<Rightarrow> x)"

record resumo_row =
  rv_filial :: string
  rv_faixas :: "(string \<times> real) list"
  rv_total :: real

definition unstack_fillna :: "((string \<times> string) \<times> real) list \<Rightarrow> (string \<times> (string \<times> real) list) list" where
  "unstack_fillna s =
     (let idx = sort (remdups (map (fst \<circ> fst) s));
          cols = filter (\<lambda>l. l \<in> set (map (snd \<circ> fst) s)) labels
      in map (\<lambda>k. (k, map (\<lambda>l. (l, fillna0 (map_of s (k, l)))) cols)) idx)"

text \<open>\<open>resumo_valores['TOTAL'] = resumo_valores.sum(axis=1)\<close>, then \<open>reset_index()\<close>.\<close>

definition resumo_valores :: "bool \<Rightarrow> dataframe \<Rightarrow> resumo_row list" where
  "resumo_valores observed df =
     map (\<lambda>(k, vals). \<lparr>rv_filial = k, rv_faixas = vals, rv_total = sum_list (map snd vals)\<rparr>)
       (unstack_fillna (groupby_filial_faixa observed df))"

subsection \<open>Percentages (app.py lines 71 to 74)\<close>

text \<open>
  Division of two float columns does not raise: a zero divisor gives NaN for \<open>0 / 0\<close> and
  an infinity with the sign of the dividend otherwise.
\<close>

definition pd_truediv :: "real \<Rightarrow> real \<Rightarrow> fnum" where
  "pd_truediv x y =
     (if y \<noteq> 0 then Fin (x / y) else if x = 0 then NaN else if 0 < x then PInf else NInf)"

fun fnum_mul100 :: "fnum \<Rightarrow> fnum" where
  "fnum_mul100 (Fin x) = Fin (x * 100)"
| "fnum_mul100 v = v"

record percentual_row =
  rp_filial :: string
  rp_faixas :: "(string \<times> fnum) list"

text \<open>
  The loop over \<open>columns[1:-1]\<close>, the range columns between \<open>filial\<close> and \<open>TOTAL\<close>, then
  \<open>drop(columns=['TOTAL'])\<close>.
\<close>

definition percentual_linha :: "resumo_row \<Rightarrow> percentual_row" where
  "percentual_linha row =
     \<lparr>rp_filial = rv_filial row,
      rp_faixas = map (\<lambda>(l, v). (l, fnum_round2 (fnum_mul100 (pd_truediv v (rv_total row)))))
                    (rv_faixas row)\<rparr>"

definition resumo_percentuais :: "resumo_row list \<Rightarrow> percentual_row list" where
  "resumo_percentuais rv = map percentual_linha rv"

subsection \<open>The workbook writer (app.py lines 92 to 116)\<close>

datatype cell_value = VNone | VStr string | VNum fnum

datatype font_style = FontePadrao | FonteNegrito | FonteBranca

record cell =
  cel_value :: cell_value
  cel_border :: bool
  cel_alignment :: bool
  cel_fill :: bool
  cel_font :: font_style

record worksheet =
  cells :: "nat \<times> nat \<Rightarrow> cell option"
  merged :: "(nat \<times> nat \<times> nat \<times> nat) list"

text \<open>The frame handed to the writer: its column names and its data rows.\<close>

record tabela =
  colunas :: "string list"
  linhas :: "cell_value list list"

definition nova_celula :: cell where
  "nova_celula = \<lparr>cel_value = VNone, cel_border = False, cel_alignment = False,
                   cel_fill = False, cel_font = FontePadrao\<rparr>"

text \<open>
  \<open>ws.cell(row, column, value)\<close> returns the cell at that position, creating it when
  absent, and stores the value unless it is \<open>None\<close>.
\<close>

definition ws_cell :: "worksheet \<Rightarrow> nat \<Rightarrow> nat \<Rightarrow> cell_value \<Rightarrow> cell" where
  "ws_cell ws r c v =
     (let old = (case cells ws (r, c) of None \<Rightarrow> nova_celula | Some k \<Rightarrow> k)
      in if v = VNone then old else old\<lparr>cel_value := v\<rparr>)"

definition put_cell :: "worksheet \<Rightarrow> nat \<Rightarrow> nat \<Rightarrow> cell \<Rightarrow> worksheet" where
  "put_cell ws r c k = ws\<lparr>cells := (cells ws)((r, c) \<mapsto> k)\<rparr>"

text \<open>
  \<open>ws.merge_cells(...)\<close> records the range; here it always lies in the title row, which
  holds no cell yet when the range is merged.
\<close>

definition merge_cells :: "worksheet \<Rightarrow> nat \<Rightarrow> nat \<Rightarrow> nat \<Rightarrow> nat \<Rightarrow> worksheet" where
  "merge_cells ws r1 c1 r2 c2 = ws\<lparr>merged := merged ws @ [(r1, c1, r2, c2)]\<rparr>"

text \<open>The inner loop, \<open>for c_idx, value in enumerate(row, start=1)\<close>, from \<open>c_idx\<close> on.\<close>

fun escrever_linha :: "worksheet \<Rightarrow> nat \<Rightarrow> nat \<Rightarrow> nat \<Rightarrow> cell_value list \<Rightarrow> worksheet" where
  "escrever_linha ws linha r_idx c_idx [] = ws"
| "escrever_linha ws linha r_idx c_idx (v # vs) =
     (let k = ws_cell ws r_idx c_idx v;
          k = k\<lparr>cel_border := True\<rparr>;
          k = k\<lparr>cel_alignment := True\<rparr>;
          k = (if r_idx = linha then k\<lparr>cel_fill := True, cel_font := FonteBranca\<rparr> else k)
      in escrever_linha (put_cell ws r_idx c_idx k) linha r_idx (Suc c_idx) vs)"

text \<open>The outer loop, \<open>for r_idx, row in enumerate(..., start=linha)\<close>, from \<open>r_idx\<close> on.\<close>

fun escrever_linhas :: "worksheet \<Rightarrow> nat \<Rightarrow> nat \<Rightarrow> cell_value list list \<Rightarrow> worksheet" where
  "escrever_linhas ws linha r_idx [] = ws"
| "escrever_linhas ws linha r_idx (row # rows) =
     escrever_linhas (escrever_linha ws linha r_idx 1 row) linha (Suc r_idx) rows"

text \<open>\<open>dataframe_to_rows(df, index=False, header=True)\<close>: the column names, then the rows.\<close>

definition dataframe_to_rows :: "tabela \<Rightarrow> cell_value list list" where
  "dataframe_to_rows df = map VStr (colunas df) # linhas df"

definition escrever_tabela_com_estilo ::
  "worksheet \<Rightarrow> tabela \<Rightarrow> string \<Rightarrow> nat \<Rightarrow> worksheet \<times> nat" where
  "escrever_tabela_com_estilo ws df titulo linha_inicial =
     (let ws = merge_cells ws linha_inicial 1 linha_inicial (length (colunas df));
          cell_titulo = ws_cell ws linha_inicial 1 (VStr titulo);
          ws = put_cell ws linha_inicial 1 (cell_titulo\<lparr>cel_font := FonteNegrito\<rparr>);
          linha = linha_inicial + 1;
          ws = escrever_linhas ws linha linha (dataframe_to_rows df)
      in (ws, linha + length (linhas df) + 1))"

definition planilha_vazia :: worksheet where
  "planilha_vazia = \<lparr>cells = (\<lambda>_. None), merged = []\<rparr>"

subsection \<open>Sample inputs\<close>

text \<open>The scenario of the specification: one branch, one row without stock value.\<close>

definition df_cenario :: dataframe where
  "df_cenario =
     [\<lparr>filial = ''A'', cobertura_dias = 10, valor_estoque = 100, mercadoria = ''m1'', saldo_pedido = 50\<rparr>,
      \<lparr>filial = ''A'', cobertura_dias = 20, valor_estoque = 0, mercadoria = ''m2'', saldo_pedido = 30\<rparr>]"

text \<open>A branch none of whose rows has a positive stock value.\<close>

definition df_sem_estoque :: dataframe where
  "df_sem_estoque =
     [\<lparr>filial = ''A'', cobertura_dias = 10, valor_estoque = 0, mercadoria = ''m1'', saldo_pedido = 50\<rparr>,
      \<lparr>filial = ''A'', cobertura_dias = 20, valor_estoque = - 5, mercadoria = ''m2'', saldo_pedido = 30\<rparr>]"

text \<open>Two branches: B without stock value, A with a weighted mean of 4/3.\<close>

definition df_media :: dataframe where
  "df_media =
     [\<lparr>filial = ''B'', cobertura_dias = 7, valor_estoque = 0, mercadoria = ''m1'', saldo_pedido = 4\<rparr>,
      \<lparr>filial = ''A'', cobertura_dias = 1, valor_estoque = 2, mercadoria = ''m2'', saldo_pedido = 1\<rparr>,
      \<lparr>filial = ''A'', cobertura_dias = 2, valor_estoque = 1, mercadoria = ''m3'', saldo_pedido = 1\<rparr>,
      \<lparr>filial = ''A'', cobertura_dias = 50, valor_estoque = 0, mercadoria = ''m4'', saldo_pedido = 0\<rparr>]"

text \<open>A branch whose pending orders are all 0.\<close>

definition df_sem_pedidos :: dataframe where
  "df_sem_pedidos =
     [\<lparr>filial = ''A'', cobertura_dias = 10, valor_estoque = 100, mercadoria = ''m1'', saldo_pedido = 0\<rparr>]"

text \<open>One branch with one row of pending value 1 in each of the six ranges.\<close>

definition df_seis_faixas :: dataframe where
  "df_seis_faixas =
     [\<lparr>filial = ''A'', cobertura_dias = - 1, valor_estoque = 1, mercadoria = ''m1'', saldo_pedido = 1\<rparr>,
      \<lparr>filial = ''A'', cobertura_dias = 1, valor_estoque = 1, mercadoria = ''m2'', saldo_pedido = 1\<rparr>,
      \<lparr>filial = ''A'', cobertura_dias = 16, valor_estoque = 1, mercadoria = ''m3'', saldo_pedido = 1\<rparr>,
      \<lparr>filial = ''A'', cobertura_dias = 31, valor_estoque = 1, mercadoria = ''m4'', saldo_pedido = 1\<rparr>,
      \<lparr>filial = ''A'', cobertura_dias = 46, valor_estoque = 1, mercadoria = ''m5'', saldo_pedido = 1\<rparr>,
      \<lparr>filial = ''A'', cobertura_dias = 61, valor_estoque = 1, mercadoria = ''m6'', saldo_pedido = 1\<rparr>]"

text \<open>Two branches, the later one in the alphabet first.\<close>

definition df_duas_filiais :: dataframe where
  "df_duas_filiais =
     [\<lparr>filial = ''B'', cobertura_dias = 5, valor_estoque = 1, mercadoria = ''m1'', saldo_pedido = 1\<rparr>,
      \<lparr>filial = ''A'', cobertura_dias = 20, valor_estoque = 1, mercadoria = ''m2'', saldo_pedido = 2\<rparr>]"

text \<open>A frame of two rows and three columns.\<close>

definition tabela_2x3 :: tabela where
  "tabela_2x3 =
     \<lparr>colunas = [''c1'', ''c2'', ''c3''],
      linhas = [[VStr ''A'', VNum (Fin 1), VNum (Fin 2)], [VStr ''B'', VNum (Fin 3), VNum (Fin 4)]]\<rparr>"

section \<open>Properties\<close>

subsection \<open>Coverage ranges\<close>

lemma pd_cut_cases:
  "pd_cut x = Some (if x < 0 then ''<=0 dias'' else if x < 15 then ''1-15 dias''
     else if x < 30 then ''16-30 dias'' else if x < 45 then ''31-45 dias''
     else if x < 60 then ''46-60 dias'' else ''Mais de 60 dias'')"
  by (simp add: pd_cut_def searchsorted_right_def bins_def labels_def)

lemma pd_cut_in_labels: "\<exists>i<6. pd_cut x = Some (labels ! i)"
proof -
  consider "x < 0" | "0 \<le> x" "x < 15" | "15 \<le> x" "x < 30" | "30 \<le> x" "x < 45"
    | "45 \<le> x" "x < 60" | "60 \<le> x"
    by linarith
  then show ?thesis
  proof cases
    case 1
    then have "pd_cut x = Some (labels ! 0)" by (simp add: pd_cut_cases labels_def)
    then show ?thesis by (intro exI [of _ 0]) simp
  next
    case 2
    then have "pd_cut x = Some (labels ! 1)" by (simp add: pd_cut_cases labels_def)
    then show ?thesis by (intro exI [of _ 1]) simp
  next
    case 3
    then have "pd_cut x = Some (labels ! 2)" by (simp add: pd_cut_cases labels_def)
    then show ?thesis by (intro exI [of _ 2]) simp
  next
    case 4
    then have "pd_cut x = Some (labels ! 3)" by (simp add: pd_cut_cases labels_def)
    then show ?thesis by (intro exI [of _ 3]) simp
  next
    case 5
    then have "pd_cut x = Some (labels ! 4)" by (simp add: pd_cut_cases labels_def)
    then show ?thesis by (intro exI [of _ 4]) simp
  next
    case 6
    then have "pd_cut x = Some (labels ! 5)" by (simp add: pd_cut_cases labels_def)
    then show ?thesis by (intro exI [of _ 5]) simp
  qed
qed

lemma faixa_label: "\<exists>l \<in> set labels. faixa r = Some l"
  using pd_cut_cases [of "cobertura_dias r"] by (simp add: faixa_def labels_def)

text \<open>
  C3. The range of a coverage value is defined for every real number and is one of the
  six labels, which are pairwise different; the intervals are closed on the left and open
  on the right, so that \<open>-1\<close> falls in the first range, \<open>0\<close> and \<open>14.999\<close> in the second,
  \<open>15\<close> in the third and \<open>60\<close> in the last.
\<close>

theorem faixa_total_boundaries:
  "(\<exists>i<6. pd_cut x = Some (labels ! i)) \<and> distinct labels \<and> length labels = 6
   \<and> pd_cut x = Some (if x < 0 then labels ! 0 else if x < 15 then labels ! 1
        else if x < 30 then labels ! 2 else if x < 45 then labels ! 3
        else if x < 60 then labels ! 4 else labels ! 5)
   \<and> pd_cut (- 1) = Some ''<=0 dias''
   \<and> pd_cut 0 = Some ''1-15 dias''
   \<and> pd_cut (14999 / 1000) = Some ''1-15 dias''
   \<and> pd_cut 15 = Some ''16-30 dias''
   \<and> pd_cut 60 = Some ''Mais de 60 dias''"
proof -
  have "distinct labels" "length labels = 6"
    by (simp_all add: labels_def)
  moreover have "pd_cut x = Some (if x < 0 then labels ! 0 else if x < 15 then labels ! 1
        else if x < 30 then labels ! 2 else if x < 45 then labels ! 3
        else if x < 60 then labels ! 4 else labels ! 5)"
    by (simp add: pd_cut_cases labels_def)
  moreover have "pd_cut (- 1) = Some ''<=0 dias''" "pd_cut 0 = Some ''1-15 dias''"
    "pd_cut (14999 / 1000) = Some ''1-15 dias''" "pd_cut 15 = Some ''16-30 dias''"
    "pd_cut 60 = Some ''Mais de 60 dias''"
    by (simp_all add: pd_cut_cases)
  ultimately show ?thesis
    using pd_cut_in_labels [of x] by blast
qed

subsection \<open>Weighted average\<close>

lemma sum_list_pos_real:
  fixes xs :: "real list"
  shows "xs \<noteq> [] \<Longrightarrow> \<forall>x \<in> set xs. 0 < x \<Longrightarrow> 0 < sum_list xs"
proof (induction xs)
  case Nil
  then show ?case by simp
next
  case (Cons x xs)
  show ?case
  proof (cases "xs = []")
    case True
    with Cons.prems show ?thesis by simp
  next
    case False
    with Cons have "0 < sum_list xs" by simp
    moreover from Cons.prems have "0 < x" by simp
    ultimately show ?thesis by simp
  qed
qed

lemma pesos_positivos:
  "filter (\<lambda>r. valor_estoque r > 0) grupo \<noteq> [] \<Longrightarrow>
   0 < sum_list (map valor_estoque (filter (\<lambda>r. valor_estoque r > 0) grupo))"
  by (rule sum_list_pos_real) auto

lemma zip_map_prod:
  "map (\<lambda>(x, y). x * y) (zip (map f xs) (map g xs)) = map (\<lambda>r. f r * (g r :: real)) xs"
  by (induction xs) auto

lemma calcular_media_ponderada_valor:
  "calcular_media_ponderada grupo =
     Inr (let pos = filter (\<lambda>r. 0 < valor_estoque r) grupo
          in if pos = [] then 0
             else (\<Sum>r\<leftarrow>pos. cobertura_dias r * valor_estoque r) / (\<Sum>r\<leftarrow>pos. valor_estoque r))"
proof (cases "filter (\<lambda>r. 0 < valor_estoque r) grupo = []")
  case True
  then show ?thesis by (simp add: calcular_media_ponderada_def)
next
  case False
  from pesos_positivos [OF False]
  have "sum_list (map valor_estoque (filter (\<lambda>r. 0 < valor_estoque r) grupo)) \<noteq> 0"
    by simp
  with False show ?thesis
    by (simp add: calcular_media_ponderada_def np_average_def Let_def zip_map_prod)
qed

lemma apply_grupos_ok:
  "apply_grupos df ks =
     Inr (map (\<lambda>k. (k, projr (calcular_media_ponderada (grupo_de df k)),
                      calcular_media_simples (grupo_de df k))) ks)"
  by (induction ks) (simp_all add: calcular_media_ponderada_valor)

lemma filter_pos_empty:
  "\<forall>r \<in> set grupo. valor_estoque r \<le> 0 \<Longrightarrow> filter (\<lambda>r. 0 < valor_estoque r) grupo = []"
  by (induction grupo) auto

text \<open>The table stores the weighted average of each branch rounded to two decimals.\<close>

lemma cobertura_linhas:
  "cobertura df =
     Inr (map (\<lambda>k. \<lparr>cob_filial = k,
                      media_ponderada = Fin (round2 (projr (calcular_media_ponderada (grupo_de df k)))),
                      media_simples = fnum_round2 (calcular_media_simples (grupo_de df k)),
                      saldo_pedido_total = map_saldo (saldo_totais df) k\<rparr>) (groupby_keys df))"
  by (simp add: cobertura_def apply_grupos_ok comp_def)

text \<open>
  C9. After the filter \<open>valor_estoque > 0\<close> a non-empty group has a strictly positive
  sum of weights, so \<open>np.average\<close> never reaches its division by zero:
  \<open>calcular_media_ponderada\<close> raises for no group and \<open>cobertura\<close> for no input.
\<close>

theorem media_ponderada_sem_erro:
  "(filter (\<lambda>r. valor_estoque r > 0) grupo \<noteq> [] \<longrightarrow>
      0 < sum_list (map valor_estoque (filter (\<lambda>r. valor_estoque r > 0) grupo)))
   \<and> (\<forall>e. calcular_media_ponderada grupo \<noteq> Inl e)
   \<and> (\<forall>e. cobertura df \<noteq> Inl e)"
  using pesos_positivos [of grupo]
  by (simp add: calcular_media_ponderada_valor cobertura_def apply_grupos_ok)

theorem media_ponderada_sem_erro_witness:
  "filter (\<lambda>r. valor_estoque r > 0) df_cenario \<noteq> []
   \<and> 0 < sum_list (map valor_estoque (filter (\<lambda>r. valor_estoque r > 0) df_cenario))
   \<and> calcular_media_ponderada df_cenario \<noteq> Inl ZeroDivisionError"
proof -
  have h: "filter (\<lambda>r. valor_estoque r > 0) df_cenario \<noteq> []"
    by (simp add: df_cenario_def)
  show ?thesis
    using h media_ponderada_sem_erro [of df_cenario df_cenario] by blast
qed

subsection \<open>Order of the branches\<close>

lemma groupby_keys_sorted: "sorted_wrt (<) (groupby_keys df)"
  by (simp add: groupby_keys_def strict_sorted_iff)

lemma distinct_groupby_keys: "distinct (groupby_keys df)"
  by (simp add: groupby_keys_def)

lemma set_groupby_keys: "set (groupby_keys df) = filial ` set df"
  by (simp add: groupby_keys_def)

lemma sort_remdups_cong: "set xs = set ys \<Longrightarrow> sort (remdups xs) = sort (remdups ys)"
proof -
  assume "set xs = set ys"
  then have "sorted_list_of_set (set xs) = sorted_list_of_set (set ys)" by simp
  then show ?thesis by (simp only: sorted_list_of_set_sort_remdups)
qed

lemma map_fst_groupby: "map fst (groupby_filial_faixa observed df) = pares_filial_faixa observed df"
  by (simp add: groupby_filial_faixa_def comp_def case_prod_unfold)

lemma set_pares:
  "set (pares_filial_faixa observed df) =
     {(k, l). k \<in> filial ` set df \<and> l \<in> set labels \<and>
              (observed \<longrightarrow> (\<exists>r \<in> set df. filial r = k \<and> faixa r = Some l))}"
  by (cases observed) (auto simp: pares_filial_faixa_def set_groupby_keys)

lemma fst_set_pares: "fst ` set (pares_filial_faixa observed df) = filial ` set df"
proof (intro equalityI subsetI)
  fix k assume "k \<in> fst ` set (pares_filial_faixa observed df)"
  then show "k \<in> filial ` set df" by (auto simp: set_pares)
next
  fix k assume "k \<in> filial ` set df"
  then obtain r where r: "r \<in> set df" "filial r = k" by auto
  from faixa_label [of r] obtain l where l: "l \<in> set labels" "faixa r = Some l" by auto
  from r l have "(k, l) \<in> set (pares_filial_faixa observed df)" by (auto simp: set_pares)
  then have "fst (k, l) \<in> fst ` set (pares_filial_faixa observed df)" by (rule imageI)
  then show "k \<in> fst ` set (pares_filial_faixa observed df)" by simp
qed

lemma filiais_unstack:
  "map fst (unstack_fillna (groupby_filial_faixa observed df)) = groupby_keys df"
proof -
  have "map (fst \<circ> fst) (groupby_filial_faixa observed df) = map fst (pares_filial_faixa observed df)"
    by (simp flip: map_fst_groupby)
  then have "set (map (fst \<circ> fst) (groupby_filial_faixa observed df)) = set (map filial df)"
    by (simp add: fst_set_pares)
  then have "sort (remdups (map (fst \<circ> fst) (groupby_filial_faixa observed df))) =
      sort (remdups (map filial df))"
    by (rule sort_remdups_cong)
  moreover have "map fst (unstack_fillna (groupby_filial_faixa observed df)) =
        sort (remdups (map (fst \<circ> fst) (groupby_filial_faixa observed df)))"
    by (simp add: unstack_fillna_def Let_def comp_def)
  ultimately show ?thesis by (simp add: groupby_keys_def)
qed

lemma filiais_resumo_valores: "map rv_filial (resumo_valores observed df) = groupby_keys df"
proof -
  have "map rv_filial (resumo_valores observed df) =
        map fst (unstack_fillna (groupby_filial_faixa observed df))"
    by (simp add: resumo_valores_def comp_def case_prod_unfold)
  then show ?thesis by (simp add: filiais_unstack)
qed

lemma filiais_resumo_percentuais: "map rp_filial (resumo_percentuais rv) = map rv_filial rv"
  by (simp add: resumo_percentuais_def percentual_linha_def comp_def)

lemma filiais_cobertura: "\<exists>tab. cobertura df = Inr tab \<and> map cob_filial tab = groupby_keys df"
  by (simp add: cobertura_def apply_grupos_ok comp_def)

text \<open>
  C10. The three tables list the same branches in the same order: the distinct branches
  of the input, each once, in strictly ascending order of the key, whatever the order of
  the input rows.
\<close>

theorem ordem_filiais:
  "\<exists>tab. cobertura df = Inr tab
     \<and> map cob_filial tab = groupby_keys df
     \<and> map rv_filial (resumo_valores observed df) = groupby_keys df
     \<and> map rp_filial (resumo_percentuais (resumo_valores observed df)) = groupby_keys df
     \<and> sorted_wrt (<) (groupby_keys df)
     \<and> set (groupby_keys df) = filial ` set df"
  using filiais_cobertura [of df]
  by (auto simp: filiais_resumo_percentuais filiais_resumo_valores groupby_keys_sorted
      set_groupby_keys)

text \<open>Rows given as B, A come out as A, B.\<close>

lemma ordem_filiais_exemplo:
  "map filial df_duas_filiais = [''B'', ''A'']
   \<and> map rv_filial (resumo_valores False df_duas_filiais) = [''A'', ''B'']
   \<and> map rp_filial (resumo_percentuais (resumo_valores False df_duas_filiais)) = [''A'', ''B'']"
  by code_simp

subsection \<open>Value per branch and range\<close>

lemma map_of_pares:
  "map_of (map (\<lambda>(k, l). ((k, l), f k l)) ps) (k, l) =
     (if (k, l) \<in> set ps then Some (f k l) else None)"
  by (induction ps) auto

lemma filter_eq_distinct:
  "distinct xs \<Longrightarrow> x \<in> set xs \<Longrightarrow> filter (\<lambda>y. f y = x) (map g xs) = [g x]" if "\<And>y. f (g y) = y"
  using that by (induction xs) (auto simp: filter_empty_conv)

lemma soma_grupo_vazio:
  "\<not> (\<exists>r \<in> set df. filial r = k \<and> faixa r = Some l) \<Longrightarrow> soma_grupo df k l = 0"
proof -
  assume "\<not> (\<exists>r \<in> set df. filial r = k \<and> faixa r = Some l)"
  then have "filter (\<lambda>r. filial r = k \<and> faixa r = Some l) df = []"
    by (simp add: filter_empty_conv)
  then show ?thesis by (simp add: soma_grupo_def)
qed

lemma uma_faixa:
  "sum_list (map (\<lambda>l. if faixa r = Some l then (x::real) else 0) labels) = x"
  using pd_cut_cases [of "cobertura_dias r"]
  by (simp add: faixa_def labels_def)

lemma soma_grupo_Cons:
  "soma_grupo (r # df) k l =
     (if filial r = k then (if faixa r = Some l then saldo_pedido r else 0) else 0) + soma_grupo df k l"
  by (simp add: soma_grupo_def)

lemma soma_faixas_filial:
  "sum_list (map (soma_grupo df k) labels) = sum_list (map saldo_pedido (grupo_de df k))"
proof (induction df)
  case Nil
  then show ?case by (simp add: soma_grupo_def grupo_de_def)
next
  case (Cons r df)
  have "sum_list (map (soma_grupo (r # df) k) labels) =
        sum_list (map (\<lambda>l. if filial r = k then (if faixa r = Some l then saldo_pedido r else 0) else 0) labels)
        + sum_list (map (soma_grupo df k) labels)"
    unfolding soma_grupo_Cons by (rule sum_list_addf)
  also have "sum_list (map (\<lambda>l. if filial r = k then (if faixa r = Some l then saldo_pedido r else 0) else 0) labels)
        = (if filial r = k then saldo_pedido r else 0)"
    using uma_faixa [of r "saldo_pedido r"] by simp
  finally show ?case using Cons.IH by (simp add: grupo_de_def)
qed

lemma snd_set_pares:
  "snd ` set (pares_filial_faixa observed df) =
     {l \<in> set labels. df \<noteq> [] \<and> (observed \<longrightarrow> (\<exists>r \<in> set df. faixa r = Some l))}"
proof (intro equalityI subsetI)
  fix l assume "l \<in> snd ` set (pares_filial_faixa observed df)"
  then obtain k where "(k, l) \<in> set (pares_filial_faixa observed df)" by auto
  then show "l \<in> {l \<in> set labels. df \<noteq> [] \<and> (observed \<longrightarrow> (\<exists>r \<in> set df. faixa r = Some l))}"
    by (auto simp: set_pares)
next
  fix l assume "l \<in> {l \<in> set labels. df \<noteq> [] \<and> (observed \<longrightarrow> (\<exists>r \<in> set df. faixa r = Some l))}"
  then have l: "l \<in> set labels" "df \<noteq> []" "observed \<longrightarrow> (\<exists>r \<in> set df. faixa r = Some l)"
    by auto
  have "\<exists>k. (k, l) \<in> set (pares_filial_faixa observed df)"
  proof (cases observed)
    case True
    with l obtain r where "r \<in> set df" "faixa r = Some l" by auto
    with l(1) True have "(filial r, l) \<in> set (pares_filial_faixa observed df)"
      by (auto simp: set_pares)
    then show ?thesis ..
  next
    case False
    from l(2) obtain r where "r \<in> set df" by (cases df) auto
    with l(1) False have "(filial r, l) \<in> set (pares_filial_faixa observed df)"
      by (auto simp: set_pares)
    then show ?thesis ..
  qed
  then obtain k where "(k, l) \<in> set (pares_filial_faixa observed df)" ..
  then have "snd (k, l) \<in> snd ` set (pares_filial_faixa observed df)" by (rule imageI)
  then show "l \<in> snd ` set (pares_filial_faixa observed df)" by simp
qed

lemma colunas_unstack:
  assumes "df \<noteq> []"
  shows "filter (\<lambda>l. l \<in> set (map (snd \<circ> fst) (groupby_filial_faixa observed df))) labels =
     (if observed then filter (\<lambda>l. \<exists>r \<in> set df. faixa r = Some l) labels else labels)"
proof -
  have "map (snd \<circ> fst) (groupby_filial_faixa observed df) = map snd (pares_filial_faixa observed df)"
    by (simp flip: map_fst_groupby)
  then have s: "set (map (snd \<circ> fst) (groupby_filial_faixa observed df)) =
      {l \<in> set labels. df \<noteq> [] \<and> (observed \<longrightarrow> (\<exists>r \<in> set df. faixa r = Some l))}"
    by (simp add: snd_set_pares)
  have mem: "l \<in> set (map (snd \<circ> fst) (groupby_filial_faixa observed df)) \<longleftrightarrow>
      (observed \<longrightarrow> (\<exists>r \<in> set df. faixa r = Some l))" if "l \<in> set labels" for l
    unfolding s using that assms by simp
  have "filter (\<lambda>l. l \<in> set (map (snd \<circ> fst) (groupby_filial_faixa observed df))) labels =
      filter (\<lambda>l. observed \<longrightarrow> (\<exists>r \<in> set df. faixa r = Some l)) labels"
    by (rule filter_cong [OF refl]) (rule mem)
  then show ?thesis by (cases observed) simp_all
qed

lemma celula_unstack:
  assumes "k \<in> filial ` set df" "l \<in> set labels"
  shows "fillna0 (map_of (groupby_filial_faixa observed df) (k, l)) = soma_grupo df k l"
proof (cases "(k, l) \<in> set (pares_filial_faixa observed df)")
  case True
  then show ?thesis
    by (simp add: groupby_filial_faixa_def map_of_pares fillna0_def)
next
  case False
  with assms have "\<not> (\<exists>r \<in> set df. filial r = k \<and> faixa r = Some l)"
    by (auto simp: set_pares)
  then have "soma_grupo df k l = 0" by (rule soma_grupo_vazio)
  with False show ?thesis
    by (simp add: groupby_filial_faixa_def map_of_pares fillna0_def)
qed

lemma unstack_linhas:
  "unstack_fillna (groupby_filial_faixa observed df) =
     map (\<lambda>k. (k, map (\<lambda>l. (l, soma_grupo df k l))
                    (if observed then filter (\<lambda>l. \<exists>r \<in> set df. faixa r = Some l) labels else labels)))
       (groupby_keys df)"
proof (cases "df = []")
  case True
  then show ?thesis
    by (simp add: unstack_fillna_def groupby_filial_faixa_def pares_filial_faixa_def groupby_keys_def)
next
  case False
  let ?s = "groupby_filial_faixa observed df"
  let ?cols = "if observed then filter (\<lambda>l. \<exists>r \<in> set df. faixa r = Some l) labels else labels"
  have idx: "sort (remdups (map (fst \<circ> fst) ?s)) = groupby_keys df"
    using filiais_unstack [of observed df] by (simp add: unstack_fillna_def Let_def comp_def)
  have cols: "filter (\<lambda>l. l \<in> set (map (snd \<circ> fst) ?s)) labels = ?cols"
    by (rule colunas_unstack [OF False])
  have sub: "set ?cols \<subseteq> set labels" by auto
  have "unstack_fillna ?s =
      map (\<lambda>k. (k, map (\<lambda>l. (l, fillna0 (map_of ?s (k, l)))) ?cols)) (groupby_keys df)"
    unfolding unstack_fillna_def Let_def idx cols ..
  also have "\<dots> = map (\<lambda>k. (k, map (\<lambda>l. (l, soma_grupo df k l)) ?cols)) (groupby_keys df)"
  proof (rule map_cong [OF refl])
    fix k assume "k \<in> set (groupby_keys df)"
    then have k: "k \<in> filial ` set df" by (simp add: set_groupby_keys)
    have "map (\<lambda>l. (l, fillna0 (map_of ?s (k, l)))) ?cols = map (\<lambda>l. (l, soma_grupo df k l)) ?cols"
      by (rule map_cong [OF refl]) (use sub k in \<open>simp add: celula_unstack subset_iff\<close>)
    then show "(k, map (\<lambda>l. (l, fillna0 (map_of ?s (k, l)))) ?cols) =
        (k, map (\<lambda>l. (l, soma_grupo df k l)) ?cols)"
      by simp
  qed
  finally show ?thesis .
qed

lemma sum_list_filter_zero:
  fixes f :: "'a \<Rightarrow> real"
  assumes "\<And>x. x \<in> set xs \<Longrightarrow> \<not> P x \<Longrightarrow> f x = 0"
  shows "sum_list (map f (filter P xs)) = sum_list (map f xs)"
  using assms by (induction xs) auto

lemma soma_colunas_observadas:
  "sum_list (map (soma_grupo df k) (filter (\<lambda>l. \<exists>r \<in> set df. faixa r = Some l) labels)) =
   sum_list (map (soma_grupo df k) labels)"
proof (rule sum_list_filter_zero)
  fix l assume "\<not> (\<exists>r \<in> set df. faixa r = Some l)"
  then have "\<not> (\<exists>r \<in> set df. filial r = k \<and> faixa r = Some l)" by blast
  then show "soma_grupo df k l = 0" by (rule soma_grupo_vazio)
qed

text \<open>
  C5, as the specification states it, fails. With \<open>observed=True\<close>, the default of
  \<open>groupby\<close> from pandas 3.0 on, the branch of \<open>df_cenario\<close> has a row of two ranges only:
  the four ranges that no input row falls in are no columns of the table.
\<close>

theorem resumo_valores_denso_counterexample:
  "map rv_filial (resumo_valores True df_cenario) = [''A'']
   \<and> map fst (rv_faixas (resumo_valores True df_cenario ! 0)) = [''1-15 dias'', ''16-30 dias'']
   \<and> length (rv_faixas (resumo_valores True df_cenario ! 0)) = 2
   \<and> map_of (rv_faixas (resumo_valores True df_cenario ! 0)) ''<=0 dias'' = None"
  by code_simp

text \<open>
  C5, amended. Every branch of the input has exactly one row in \<open>resumo_valores\<close>. Its
  range columns are all six labels when \<open>groupby\<close> runs with \<open>observed=False\<close>, and the
  labels that some row of the input (of any branch) falls in when it runs with
  \<open>observed=True\<close>, in the order of the labels either way. Each column holds the sum of the
  pending orders of the rows of the branch in that range, which is 0 where the branch has
  no such row; TOTAL is the sum of the values of the row, and equals the sum of the
  pending orders of all the rows of the branch.
\<close>

theorem resumo_valores_linha_filial:
  assumes "k \<in> filial ` set df"
  shows "\<exists>row. filter (\<lambda>row. rv_filial row = k) (resumo_valores observed df) = [row]
      \<and> map fst (rv_faixas row) =
          (if observed then filter (\<lambda>l. \<exists>r \<in> set df. faixa r = Some l) labels else labels)
      \<and> map snd (rv_faixas row) =
          map (\<lambda>l. sum_list (map saldo_pedido (filter (\<lambda>r. filial r = k \<and> faixa r = Some l) df)))
            (map fst (rv_faixas row))
      \<and> (\<forall>l \<in> set (map fst (rv_faixas row)).
            \<not> (\<exists>r \<in> set df. filial r = k \<and> faixa r = Some l) \<longrightarrow> map_of (rv_faixas row) l = Some 0)
      \<and> rv_total row = sum_list (map snd (rv_faixas row))
      \<and> rv_total row = sum_list (map saldo_pedido (filter (\<lambda>r. filial r = k) df))"
proof -
  let ?cols = "if observed then filter (\<lambda>l. \<exists>r \<in> set df. faixa r = Some l) labels else labels"
  let ?R = "\<lambda>k. \<lparr>rv_filial = k, rv_faixas = map (\<lambda>l. (l, soma_grupo df k l)) ?cols,
                rv_total = sum_list (map (soma_grupo df k) ?cols)\<rparr>"
  from assms have k: "k \<in> set (groupby_keys df)" by (simp add: set_groupby_keys)
  have rv: "resumo_valores observed df = map ?R (groupby_keys df)"
    by (simp add: resumo_valores_def unstack_linhas comp_def)
  have "filter (\<lambda>row. rv_filial row = k) (map ?R (groupby_keys df)) = [?R k]"
    by (rule filter_eq_distinct [OF _ distinct_groupby_keys k]) simp
  then have 1: "filter (\<lambda>row. rv_filial row = k) (resumo_valores observed df) = [?R k]"
    by (simp only: rv)
  have 2: "map fst (rv_faixas (?R k)) = ?cols" by (simp add: comp_def)
  have 3: "map snd (rv_faixas (?R k)) =
          map (\<lambda>l. sum_list (map saldo_pedido (filter (\<lambda>r. filial r = k \<and> faixa r = Some l) df)))
            (map fst (rv_faixas (?R k)))"
    by (simp add: comp_def soma_grupo_def)
  have 4: "\<forall>l \<in> set (map fst (rv_faixas (?R k))).
            \<not> (\<exists>r \<in> set df. filial r = k \<and> faixa r = Some l) \<longrightarrow> map_of (rv_faixas (?R k)) l = Some 0"
  proof (intro ballI impI)
    fix l assume "l \<in> set (map fst (rv_faixas (?R k)))"
      and n: "\<not> (\<exists>r \<in> set df. filial r = k \<and> faixa r = Some l)"
    then have l: "l \<in> set ?cols" by (simp only: 2)
    from n have "soma_grupo df k l = 0" by (rule soma_grupo_vazio)
    moreover have "map_of (map (\<lambda>l. (l, soma_grupo df k l)) ?cols) l = Some (soma_grupo df k l)"
      using l by (simp add: map_of_map_restrict)
    ultimately show "map_of (rv_faixas (?R k)) l = Some 0" by simp
  qed
  have 5: "rv_total (?R k) = sum_list (map snd (rv_faixas (?R k)))" by (simp add: comp_def)
  have "sum_list (map (soma_grupo df k) ?cols) = sum_list (map (soma_grupo df k) labels)"
    by (simp add: soma_colunas_observadas)
  then have 6: "rv_total (?R k) = sum_list (map saldo_pedido (filter (\<lambda>r. filial r = k) df))"
    by (simp add: soma_faixas_filial grupo_de_def)
  from 1 2 3 4 5 6 show ?thesis by blast
qed

theorem resumo_valores_linha_filial_witness:
  "(\<exists>row. filter (\<lambda>row. rv_filial row = ''A'') (resumo_valores True df_duas_filiais) = [row]
      \<and> rv_faixas row = [(''1-15 dias'', 0), (''16-30 dias'', 2)] \<and> rv_total row = 2)
   \<and> (\<exists>row. filter (\<lambda>row. rv_filial row = ''A'') (resumo_valores False df_cenario) = [row]
      \<and> map fst (rv_faixas row) = labels \<and> map snd (rv_faixas row) = [0, 50, 30, 0, 0, 0]
      \<and> rv_total row = 80)"
proof -
  have "''A'' \<in> filial ` set df_duas_filiais" by (simp add: df_duas_filiais_def)
  from resumo_valores_linha_filial [OF this, of True] obtain row where
    r: "filter (\<lambda>row. rv_filial row = ''A'') (resumo_valores True df_duas_filiais) = [row]"
    by blast
  have "filter (\<lambda>row. rv_filial row = ''A'') (resumo_valores True df_duas_filiais) =
      [\<lparr>rv_filial = ''A'', rv_faixas = [(''1-15 dias'', 0), (''16-30 dias'', 2)], rv_total = 2\<rparr>]"
    by code_simp
  with r have v: "rv_faixas row = [(''1-15 dias'', 0), (''16-30 dias'', 2)]" "rv_total row = 2"
    by auto
  from r v have t: "\<exists>row. filter (\<lambda>row. rv_filial row = ''A'') (resumo_valores True df_duas_filiais) = [row]
      \<and> rv_faixas row = [(''1-15 dias'', 0), (''16-30 dias'', 2)] \<and> rv_total row = 2"
    by (intro exI [of _ row] conjI)
  have "''A'' \<in> filial ` set df_cenario" by (simp add: df_cenario_def)
  from resumo_valores_linha_filial [OF this, of False] obtain row' where
    r': "filter (\<lambda>row. rv_filial row = ''A'') (resumo_valores False df_cenario) = [row']"
      "map fst (rv_faixas row') = labels"
    by auto
  have "filter (\<lambda>row. rv_filial row = ''A'') (resumo_valores False df_cenario) =
      [\<lparr>rv_filial = ''A'',
        rv_faixas = [(''<=0 dias'', 0), (''1-15 dias'', 50), (''16-30 dias'', 30), (''31-45 dias'', 0),
                     (''46-60 dias'', 0), (''Mais de 60 dias'', 0)],
        rv_total = 80\<rparr>]"
    by code_simp
  with r'(1) have v': "map snd (rv_faixas row') = [0, 50, 30, 0, 0, 0]" "rv_total row' = 80"
    by auto
  from r' v' have f: "\<exists>row. filter (\<lambda>row. rv_filial row = ''A'') (resumo_valores False df_cenario) = [row]
      \<and> map fst (rv_faixas row) = labels \<and> map snd (rv_faixas row) = [0, 50, 30, 0, 0, 0]
      \<and> rv_total row = 80"
    by (intro exI [of _ row'] conjI)
  from t f show ?thesis by (rule conjI)
qed

subsection \<open>Percentages\<close>

lemma rint_err: "\<bar>real_of_int (rint y) - y\<bar> \<le> 1 / 2"
proof -
  have "real_of_int \<lfloor>y\<rfloor> \<le> y" "y < real_of_int \<lfloor>y\<rfloor> + 1" by linarith+
  then show ?thesis
    by (auto simp: rint_def Let_def)
qed

lemma round2_err: "\<bar>round2 x - x\<bar> \<le> 1 / 200"
proof -
  have "\<bar>real_of_int (rint (x * 100)) - x * 100\<bar> \<le> 1 / 2" by (rule rint_err)
  then show ?thesis by (simp add: round2_def field_simps abs_le_iff)
qed

lemma sum_list_err:
  fixes f g :: "'a \<Rightarrow> real"
  assumes "\<And>x. \<bar>f x - g x\<bar> \<le> e"
  shows "\<bar>sum_list (map f xs) - sum_list (map g xs)\<bar> \<le> real (length xs) * e"
proof (induction xs)
  case Nil
  then show ?case by simp
next
  case (Cons x xs)
  have "\<bar>f x - g x\<bar> \<le> e" by (rule assms)
  with Cons show ?case by (simp add: algebra_simps abs_le_iff)
qed

lemma sum_list_scale:
  fixes xs :: "real list"
  shows "sum_list (map (\<lambda>v. v / t * 100) xs) = sum_list xs / t * 100"
  by (induction xs) (simp_all add: add_divide_distrib distrib_right)

lemma linha_resumo:
  assumes "row \<in> set (resumo_valores observed df)"
  shows "length (rv_faixas row) \<le> 6 \<and> rv_total row = sum_list (map snd (rv_faixas row))"
proof -
  have "length (filter P labels) \<le> 6" for P :: "string \<Rightarrow> bool"
    using length_filter_le [of P labels] by (simp add: labels_def)
  with assms show ?thesis
    by (auto simp: resumo_valores_def unstack_fillna_def Let_def)
qed

lemma percentual_finito:
  "rv_total row \<noteq> 0 \<Longrightarrow>
   map snd (rp_faixas (percentual_linha row)) =
     map Fin (map (\<lambda>v. round2 (v / rv_total row * 100)) (map snd (rv_faixas row)))"
  by (simp add: percentual_linha_def pd_truediv_def comp_def case_prod_unfold)

lemma soma_percentuais:
  fixes vs :: "real list"
  assumes "sum_list vs = t" "t \<noteq> 0" "length vs \<le> 6"
  shows "\<bar>sum_list (map (\<lambda>v. round2 (v / t * 100)) vs) - 100\<bar> \<le> 3 / 100"
proof -
  have "\<bar>sum_list (map (\<lambda>v. round2 (v / t * 100)) vs) - sum_list (map (\<lambda>v. v / t * 100) vs)\<bar>
        \<le> real (length vs) * (1 / 200)"
    by (rule sum_list_err) (rule round2_err)
  moreover have "sum_list (map (\<lambda>v. v / t * 100) vs) = sum_list vs / t * 100"
    by (rule sum_list_scale)
  moreover have "sum_list vs / t * 100 = 100"
    using assms(1,2) by simp
  moreover have "real (length vs) * (1 / 200) \<le> 3 / 100"
    using assms(3) by simp
  ultimately show ?thesis by linarith
qed

text \<open>
  C1, as the specification states it, fails. The branch of \<open>df_sem_pedidos\<close> has a TOTAL
  of 0, and each of its percentages is NaN, the result of \<open>0 / 0\<close>, not 0; this holds for
  either default of \<open>observed\<close>.
\<close>

theorem percentuais_total_zero_counterexample:
  "rv_total (resumo_valores False df_sem_pedidos ! 0) = 0
   \<and> map snd (rp_faixas (resumo_percentuais (resumo_valores False df_sem_pedidos) ! 0)) =
       [NaN, NaN, NaN, NaN, NaN, NaN]
   \<and> rv_total (resumo_valores True df_sem_pedidos ! 0) = 0
   \<and> rp_faixas (resumo_percentuais (resumo_valores True df_sem_pedidos) ! 0) =
       [(''1-15 dias'', NaN)]
   \<and> NaN \<noteq> Fin 0"
  by code_simp

text \<open>
  C1, amended. A row whose TOTAL is not 0 gets, for every range, the finite percentage
  \<open>round(value / TOTAL * 100, 2)\<close>. A row whose TOTAL is 0 gets no replacement value: the
  division yields NaN where the value of the range is 0 and an infinity with the sign of
  the value otherwise, and rounding keeps it. The order of the ranges and of the rows is
  that of \<open>resumo_valores\<close>.
\<close>

theorem percentuais_por_total:
  "map rp_faixas (resumo_percentuais rv) =
     map (\<lambda>row. map (\<lambda>(l, v). (l,
            if rv_total row \<noteq> 0 then Fin (round2 (v / rv_total row * 100))
            else if v = 0 then NaN else if 0 < v then PInf else NInf)) (rv_faixas row)) rv"
  by (simp add: resumo_percentuais_def percentual_linha_def pd_truediv_def comp_def
      case_prod_unfold)

text \<open>
  C6, as the specification states it, fails. The branch of \<open>df_seis_faixas\<close> has a TOTAL
  of 6 and one sixth of it in each range: every percentage rounds to 16.67 and the six
  add up to 100.02, above 100.01.
\<close>

theorem soma_percentuais_counterexample:
  "0 < rv_total (resumo_valores False df_seis_faixas ! 0)
   \<and> map snd (rp_faixas (resumo_percentuais (resumo_valores False df_seis_faixas) ! 0)) =
       map Fin [1667 / 100, 1667 / 100, 1667 / 100, 1667 / 100, 1667 / 100, 1667 / 100]
   \<and> sum_list [1667 / 100, 1667 / 100, 1667 / 100, 1667 / 100, 1667 / 100, 1667 / 100 :: real]
       = 10002 / 100
   \<and> \<not> (10002 / 100 \<le> (10001 / 100 :: real))"
  by code_simp

text \<open>
  C6, amended. For every branch whose TOTAL is strictly positive, the percentages of its
  row are finite and their sum lies in the interval [99.97, 100.03]: each of the at most
  six values is rounded on its own and moves by at most 0.005.
\<close>

theorem soma_percentuais_tolerancia:
  assumes "i < length (resumo_valores observed df)"
    and "0 < rv_total (resumo_valores observed df ! i)"
  shows "\<exists>ps. map snd (rp_faixas (resumo_percentuais (resumo_valores observed df) ! i)) = map Fin ps
      \<and> 9997 / 100 \<le> sum_list ps \<and> sum_list ps \<le> 10003 / 100"
proof -
  let ?row = "resumo_valores observed df ! i"
  let ?ps = "map (\<lambda>v. round2 (v / rv_total ?row * 100)) (map snd (rv_faixas ?row))"
  from assms(1) have "?row \<in> set (resumo_valores observed df)" by simp
  then have l: "length (rv_faixas ?row) \<le> 6"
    and t: "rv_total ?row = sum_list (map snd (rv_faixas ?row))"
    using linha_resumo by blast+
  from assms(2) have nz: "rv_total ?row \<noteq> 0" by simp
  have "resumo_percentuais (resumo_valores observed df) ! i = percentual_linha ?row"
    using assms(1) by (simp add: resumo_percentuais_def)
  then have 1: "map snd (rp_faixas (resumo_percentuais (resumo_valores observed df) ! i)) = map Fin ?ps"
    using percentual_finito [OF nz] by simp
  have "\<bar>sum_list ?ps - 100\<bar> \<le> 3 / 100"
    unfolding map_map comp_def
    using soma_percentuais [of "map snd (rv_faixas ?row)" "rv_total ?row"] t nz l
    by (simp add: comp_def)
  then have 2: "9997 / 100 \<le> sum_list ?ps \<and> sum_list ?ps \<le> 10003 / 100"
    by linarith
  from 1 2 show ?thesis by blast
qed

theorem soma_percentuais_tolerancia_witness:
  "\<exists>ps. map snd (rp_faixas (resumo_percentuais (resumo_valores False df_cenario) ! 0)) = map Fin ps
      \<and> 9997 / 100 \<le> sum_list ps \<and> sum_list ps \<le> 10003 / 100"
proof -
  have "0 < length (resumo_valores False df_cenario)"
    "0 < rv_total (resumo_valores False df_cenario ! 0)"
    by code_simp+
  then show ?thesis by (rule soma_percentuais_tolerancia)
qed

subsection \<open>The workbook writer\<close>

lemma cells_put_cell: "cells (put_cell ws r c k) = (cells ws)((r, c) \<mapsto> k)"
  by (simp add: put_cell_def)

lemma cells_merge_cells: "cells (merge_cells ws a b c d) = cells ws"
  by (simp add: merge_cells_def)

text \<open>Writing a row touches the columns \<open>c\<close> to \<open>c + length vs - 1\<close> of row \<open>r\<close> only.\<close>

lemma escrever_linha_fora:
  "\<not> (i = r \<and> c \<le> j \<and> j < c + length vs) \<Longrightarrow>
   cells (escrever_linha ws linha r c vs) (i, j) = cells ws (i, j)"
proof (induction vs arbitrary: ws c)
  case Nil
  then show ?case by simp
next
  case (Cons v vs)
  from Cons.prems have a: "\<not> (i = r \<and> Suc c \<le> j \<and> j < Suc c + length vs)"
    and b: "(i, j) \<noteq> (r, c)"
    by auto
  have "cells (escrever_linha (put_cell ws r c k) linha r (Suc c) vs) (i, j) = cells ws (i, j)" for k
    using Cons.IH [OF a] b by (auto simp: cells_put_cell)
  then show ?case
    by (simp add: Let_def)
qed

lemma escrever_linha_dentro:
  "c \<le> j \<Longrightarrow> j < c + length vs \<Longrightarrow> cells (escrever_linha ws linha r c vs) (r, j) \<noteq> None"
proof (induction vs arbitrary: ws c)
  case Nil
  then show ?case by simp
next
  case (Cons v vs)
  show ?case
  proof (cases "j = c")
    case True
    then have "\<not> (r = r \<and> Suc c \<le> j \<and> j < Suc c + length vs)" by simp
    then show ?thesis
      by (simp add: escrever_linha_fora Let_def cells_put_cell True)
  next
    case False
    with Cons.prems have "Suc c \<le> j" "j < Suc c + length vs" by simp_all
    then show ?thesis by (simp add: Cons.IH Let_def)
  qed
qed

text \<open>Writing the rows touches the rows \<open>r\<close> to \<open>r + length rows - 1\<close> only, and fills them.\<close>

lemma escrever_linhas_fora:
  "i < r \<or> r + length rows \<le> i \<Longrightarrow>
   cells (escrever_linhas ws linha r rows) (i, j) = cells ws (i, j)"
proof (induction rows arbitrary: ws r)
  case Nil
  then show ?case by simp
next
  case (Cons row rows)
  from Cons.prems have "i < Suc r \<or> Suc r + length rows \<le> i" "i \<noteq> r" by auto
  then show ?case
    by (simp add: Cons.IH escrever_linha_fora)
qed

lemma escrever_linhas_dentro:
  "n < length rows \<Longrightarrow> 1 \<le> j \<Longrightarrow> j \<le> length (rows ! n) \<Longrightarrow>
   cells (escrever_linhas ws linha r rows) (r + n, j) \<noteq> None"
proof (induction rows arbitrary: ws r n)
  case Nil
  then show ?case by simp
next
  case (Cons row rows)
  show ?case
  proof (cases n)
    case 0
    with Cons.prems have "1 \<le> j" "j < 1 + length row" by simp_all
    then have "cells (escrever_linha ws linha r 1 row) (r, j) \<noteq> None"
      by (rule escrever_linha_dentro)
    moreover have "cells (escrever_linhas (escrever_linha ws linha r 1 row) linha (Suc r) rows) (r, j)
        = cells (escrever_linha ws linha r 1 row) (r, j)"
      by (rule escrever_linhas_fora) simp
    ultimately show ?thesis using 0 by simp
  next
    case (Suc m)
    with Cons.prems have "m < length rows" "1 \<le> j" "j \<le> length (rows ! m)" by simp_all
    then have "cells (escrever_linhas (escrever_linha ws linha r 1 row) linha (Suc r) rows)
        (Suc r + m, j) \<noteq> None"
      by (rule Cons.IH)
    then show ?thesis using Suc by simp
  qed
qed

text \<open>
  C2, as the specification states it, fails. A frame of two rows and three columns written
  from row 1 returns 5, not 6: the title is in row 1, the header in row 2, the data in
  rows 3 and 4, and row 4, the one just before the returned index, holds the last data
  row, so that no row is left blank.
\<close>

theorem layout_proxima_linha_counterexample:
  "snd (escrever_tabela_com_estilo planilha_vazia tabela_2x3 ''T'' 1) = 5
   \<and> snd (escrever_tabela_com_estilo planilha_vazia tabela_2x3 ''T'' 1) \<noteq> 1 + 1 + 2 + 1 + 1
   \<and> cel_value (the (cells (fst (escrever_tabela_com_estilo planilha_vazia tabela_2x3 ''T'' 1)) (4, 1)))
       = VStr ''B''"
  by code_simp

text \<open>
  C2, amended. For a table of \<open>n\<close> data rows written from row \<open>r\<close>, the writer returns
  \<open>r + n + 2\<close>, that is \<open>r\<close> (title) + 1 (header) + \<open>n\<close> (data rows) + 1. It changes no
  cell above row \<open>r\<close> or from the returned row on, and the row just before the returned one
  is the last row it wrote (the last data row, or the header of a table without rows),
  filled in every column of that row: the next table starts directly below, with no
  blank row between the two.
\<close>

theorem layout_proxima_linha:
  "snd (escrever_tabela_com_estilo ws df titulo r) = r + length (linhas df) + 2
   \<and> (\<forall>i j. i < r \<or> r + length (linhas df) + 2 \<le> i \<longrightarrow>
         cells (fst (escrever_tabela_com_estilo ws df titulo r)) (i, j) = cells ws (i, j))
   \<and> (\<forall>j. 1 \<le> j \<and> j \<le> length (last (dataframe_to_rows df)) \<longrightarrow>
         cells (fst (escrever_tabela_com_estilo ws df titulo r)) (r + length (linhas df) + 1, j) \<noteq> None)"
proof (intro conjI allI impI)
  show "snd (escrever_tabela_com_estilo ws df titulo r) = r + length (linhas df) + 2"
    by (simp add: escrever_tabela_com_estilo_def Let_def)
next
  fix i j :: nat
  assume a: "i < r \<or> r + length (linhas df) + 2 \<le> i"
  then have "i < r + 1 \<or> r + 1 + length (dataframe_to_rows df) \<le> i" "(i, j) \<noteq> (r, 1)"
    by (auto simp: dataframe_to_rows_def)
  then show "cells (fst (escrever_tabela_com_estilo ws df titulo r)) (i, j) = cells ws (i, j)"
    by (auto simp: escrever_tabela_com_estilo_def Let_def escrever_linhas_fora cells_put_cell
        cells_merge_cells)
next
  fix j :: nat
  assume j: "1 \<le> j \<and> j \<le> length (last (dataframe_to_rows df))"
  let ?rows = "dataframe_to_rows df"
  have n: "length (linhas df) < length ?rows" by (simp add: dataframe_to_rows_def)
  have "last ?rows = ?rows ! length (linhas df)"
    by (simp add: dataframe_to_rows_def last_conv_nth nth_Cons')
  with j have "1 \<le> j" "j \<le> length (?rows ! length (linhas df))" by simp_all
  with n have "cells (escrever_linhas ws' linha (r + 1) ?rows) (r + 1 + length (linhas df), j) \<noteq> None"
    for ws' linha
    by (rule escrever_linhas_dentro)
  then show "cells (fst (escrever_tabela_com_estilo ws df titulo r)) (r + length (linhas df) + 1, j) \<noteq> None"
    by (simp add: escrever_tabela_com_estilo_def Let_def add.commute add.left_commute)
qed

theorem layout_proxima_linha_witness:
  "snd (escrever_tabela_com_estilo planilha_vazia tabela_2x3 ''T'' 1) = 5
   \<and> cells (fst (escrever_tabela_com_estilo planilha_vazia tabela_2x3 ''T'' 1)) (5, 1) = None
   \<and> cells (fst (escrever_tabela_com_estilo planilha_vazia tabela_2x3 ''T'' 1)) (4, 1) \<noteq> None"
proof -
  note t = layout_proxima_linha [of planilha_vazia tabela_2x3 "''T''" 1]
  have n: "length (linhas tabela_2x3) = 2" "length (last (dataframe_to_rows tabela_2x3)) = 3"
    by (simp_all add: tabela_2x3_def dataframe_to_rows_def)
  from t have "snd (escrever_tabela_com_estilo planilha_vazia tabela_2x3 ''T'' 1) =
      1 + length (linhas tabela_2x3) + 2"
    by blast
  then have a: "snd (escrever_tabela_com_estilo planilha_vazia tabela_2x3 ''T'' 1) = 5"
    by (simp add: n)
  from t have "\<forall>i j. i < 1 \<or> 1 + length (linhas tabela_2x3) + 2 \<le> i \<longrightarrow>
      cells (fst (escrever_tabela_com_estilo planilha_vazia tabela_2x3 ''T'' 1)) (i, j) =
      cells planilha_vazia (i, j)"
    by blast
  then have "(5::nat) < 1 \<or> 1 + length (linhas tabela_2x3) + 2 \<le> 5 \<longrightarrow>
      cells (fst (escrever_tabela_com_estilo planilha_vazia tabela_2x3 ''T'' 1)) (5, 1) =
      cells planilha_vazia (5, 1)"
    by blast
  then have b: "cells (fst (escrever_tabela_com_estilo planilha_vazia tabela_2x3 ''T'' 1)) (5, 1) = None"
    by (simp add: n planilha_vazia_def)
  from t have "\<forall>j. 1 \<le> j \<and> j \<le> length (last (dataframe_to_rows tabela_2x3)) \<longrightarrow>
      cells (fst (escrever_tabela_com_estilo planilha_vazia tabela_2x3 ''T'' 1))
        (1 + length (linhas tabela_2x3) + 1, j) \<noteq> None"
    by blast
  then have "(1::nat) \<le> 1 \<and> 1 \<le> length (last (dataframe_to_rows tabela_2x3)) \<longrightarrow>
      cells (fst (escrever_tabela_com_estilo planilha_vazia tabela_2x3 ''T'' 1))
        (1 + length (linhas tabela_2x3) + 1, 1) \<noteq> None"
    by blast
  moreover have "(1::nat) \<le> 1 \<and> 1 \<le> length (last (dataframe_to_rows tabela_2x3))"
    by (simp add: n)
  ultimately have "cells (fst (escrever_tabela_com_estilo planilha_vazia tabela_2x3 ''T'' 1))
      (1 + length (linhas tabela_2x3) + 1, 1) \<noteq> None"
    by blast
  moreover have "1 + length (linhas tabela_2x3) + 1 = 4"
    by (simp add: n)
  ultimately have c: "cells (fst (escrever_tabela_com_estilo planilha_vazia tabela_2x3 ''T'' 1)) (4, 1) \<noteq> None"
    by metis
  from a b c show ?thesis by blast
qed

subsection \<open>Weighted average in the summary table\<close>

lemma round2_zero: "round2 0 = 0"
  by (simp add: round2_def rint_def)

lemma filter_grupo_de:
  "filter (\<lambda>r. 0 < valor_estoque r) (grupo_de df k) =
   filter (\<lambda>r. filial r = k \<and> 0 < valor_estoque r) df"
  by (simp add: grupo_de_def)

text \<open>
  C4, as the specification states it, fails. For branch A of \<open>df_media\<close> the weighted
  mean over the rows with a positive stock value is 4/3, and the table \<open>cobertura\<close> holds
  1.33: the value is rounded to two decimals before it is stored.
\<close>

theorem media_ponderada_arredondada_counterexample:
  "calcular_media_ponderada (grupo_de df_media ''A'') = Inr (4 / 3)
   \<and> map (\<lambda>row. (cob_filial row, media_ponderada row)) (projr (cobertura df_media)) =
       [(''A'', Fin (133 / 100)), (''B'', Fin 0)]
   \<and> (133 / 100 :: real) \<noteq> 4 / 3"
  by code_simp

text \<open>
  C4, amended. For every branch of the input, the table \<open>cobertura\<close> has exactly one row,
  and its weighted average is the mean of the coverage days weighted by the stock value,
  taken over exactly the rows of that branch whose stock value is positive, rounded to
  two decimals; for a branch in which every row has a stock value of at most 0 it is 0,
  and nothing is raised.
\<close>

theorem media_ponderada_tabela:
  assumes "k \<in> filial ` set df"
  shows "\<exists>tab row. cobertura df = Inr tab \<and> filter (\<lambda>row. cob_filial row = k) tab = [row]
     \<and> media_ponderada row =
         Fin (round2 (let pos = filter (\<lambda>r. filial r = k \<and> 0 < valor_estoque r) df
                      in if pos = [] then 0
                         else (\<Sum>r\<leftarrow>pos. cobertura_dias r * valor_estoque r) /
                              (\<Sum>r\<leftarrow>pos. valor_estoque r)))
     \<and> ((\<forall>r \<in> set df. filial r = k \<longrightarrow> valor_estoque r \<le> 0) \<longrightarrow> media_ponderada row = Fin 0)"
proof -
  let ?R = "\<lambda>k. \<lparr>cob_filial = k,
                media_ponderada = Fin (round2 (projr (calcular_media_ponderada (grupo_de df k)))),
                media_simples = fnum_round2 (calcular_media_simples (grupo_de df k)),
                saldo_pedido_total = map_saldo (saldo_totais df) k\<rparr>"
  let ?pos = "filter (\<lambda>r. filial r = k \<and> 0 < valor_estoque r) df"
  from assms have k: "k \<in> set (groupby_keys df)" by (simp add: set_groupby_keys)
  have 1: "cobertura df = Inr (map ?R (groupby_keys df))" by (rule cobertura_linhas)
  have 2: "filter (\<lambda>row. cob_filial row = k) (map ?R (groupby_keys df)) = [?R k]"
    by (rule filter_eq_distinct [OF _ distinct_groupby_keys k]) simp
  have v: "projr (calcular_media_ponderada (grupo_de df k)) =
      (if ?pos = [] then 0
       else (\<Sum>r\<leftarrow>?pos. cobertura_dias r * valor_estoque r) / (\<Sum>r\<leftarrow>?pos. valor_estoque r))"
    by (simp add: calcular_media_ponderada_valor filter_grupo_de Let_def)
  then have 3: "media_ponderada (?R k) =
         Fin (round2 (let pos = ?pos
                      in if pos = [] then 0
                         else (\<Sum>r\<leftarrow>pos. cobertura_dias r * valor_estoque r) /
                              (\<Sum>r\<leftarrow>pos. valor_estoque r)))"
    by (simp add: Let_def)
  have 4: "(\<forall>r \<in> set df. filial r = k \<longrightarrow> valor_estoque r \<le> 0) \<longrightarrow> media_ponderada (?R k) = Fin 0"
  proof
    assume "\<forall>r \<in> set df. filial r = k \<longrightarrow> valor_estoque r \<le> 0"
    then have "?pos = []" by (auto simp: filter_empty_conv)
    with v show "media_ponderada (?R k) = Fin 0" by (simp add: round2_zero)
  qed
  from 1 2 3 4 show ?thesis by blast
qed

theorem media_ponderada_tabela_witness:
  "\<exists>tab rowA rowB. cobertura df_media = Inr tab
     \<and> filter (\<lambda>row. cob_filial row = ''A'') tab = [rowA] \<and> media_ponderada rowA = Fin (133 / 100)
     \<and> filter (\<lambda>row. cob_filial row = ''B'') tab = [rowB] \<and> media_ponderada rowB = Fin 0"
proof -
  have a: "''A'' \<in> filial ` set df_media" and b: "''B'' \<in> filial ` set df_media"
    by (simp_all add: df_media_def)
  have z: "\<forall>r \<in> set df_media. filial r = ''B'' \<longrightarrow> valor_estoque r \<le> 0"
    by (simp add: df_media_def)
  from media_ponderada_tabela [OF a] obtain tab rowA where
    ta: "cobertura df_media = Inr tab" "filter (\<lambda>row. cob_filial row = ''A'') tab = [rowA]"
      "media_ponderada rowA =
         Fin (round2 (let pos = filter (\<lambda>r. filial r = ''A'' \<and> 0 < valor_estoque r) df_media
                      in if pos = [] then 0
                         else (\<Sum>r\<leftarrow>pos. cobertura_dias r * valor_estoque r) /
                              (\<Sum>r\<leftarrow>pos. valor_estoque r)))"
    by blast
  from media_ponderada_tabela [OF b] z obtain tab' rowB where
    tb: "cobertura df_media = Inr tab'" "filter (\<lambda>row. cob_filial row = ''B'') tab' = [rowB]"
      "media_ponderada rowB = Fin 0"
    by blast
  from ta(1) tb(1) have e: "tab' = tab" by simp
  have "round2 (let pos = filter (\<lambda>r. filial r = ''A'' \<and> 0 < valor_estoque r) df_media
                      in if pos = [] then 0
                         else (\<Sum>r\<leftarrow>pos. cobertura_dias r * valor_estoque r) /
                              (\<Sum>r\<leftarrow>pos. valor_estoque r)) = 133 / 100"
    by code_simp
  with ta(3) have "media_ponderada rowA = Fin (133 / 100)" by simp
  with ta(1,2) tb(2,3) e show ?thesis by blast
qed

end
